theory Spec2Isabelle
  imports Complex_Main "HOL-Library.Multiset" "HOL-Library.Monad_Syntax"
begin

section \<open>Playing cards API (exp4.2.js)\<close>

subsection \<open>Data model\<close>

text \<open>
  A card is the object \<^verbatim>\<open>{ id, rank, suit }\<close>. The field \<^verbatim>\<open>id\<close> is called
  \<open>card_id\<close> here, \<open>id\<close> being the identity function of HOL. The module keeps two
  arrays, \<^verbatim>\<open>deck\<close> and \<^verbatim>\<open>discardPile\<close>.

  A card object is created by \<^verbatim>\<open>makeDeck\<close> or by \<^verbatim>\<open>POST /cards\<close> and from then on
  only moved (\<^verbatim>\<open>splice\<close>/\<^verbatim>\<open>shift\<close> followed by \<^verbatim>\<open>push\<close>): no object is ever
  held at two positions. A write to a field of \<^verbatim>\<open>deck[idx]\<close> is therefore the
  update of the list at \<open>idx\<close>, and it takes effect at the statement that makes it.
\<close>

record card =
  card_id :: string
  rank :: string
  suit :: string

record store =
  deck :: "card list"
  discardPile :: "card list"

text \<open>
  A field of a JSON request body is absent (\<open>None\<close>) or a string. The source tests
  fields by truthiness (\<^verbatim>\<open>!rank\<close>, \<^verbatim>\<open>id || ...\<close>, \<^verbatim>\<open>if (newId)\<close>): an absent
  field and the empty string are falsy.
\<close>

definition truthy :: "string option \<Rightarrow> bool" where
  "truthy v = (case v of None \<Rightarrow> False | Some x \<Rightarrow> x \<noteq> [])"

definition str :: "string option \<Rightarrow> string" where
  "str v = (case v of None \<Rightarrow> [] | Some x \<Rightarrow> x)"

text \<open>What a handler sends: the HTTP status and the JSON body.\<close>

datatype body =
  Error string
  | Card card
  | Cards "card list"
  | Removed card
  | Drawn "card list" nat
  | Status string nat

type_synonym response = "nat \<times> body"

subsection \<open>The standard deck\<close>

definition SUITS :: "string list" where
  "SUITS = [''Clubs'', ''Diamonds'', ''Hearts'', ''Spades'']"

definition RANKS :: "string list" where
  "RANKS = [''A'', ''2'', ''3'', ''4'', ''5''] @ [''6'', ''7'', ''8'', ''9'', ''10''] @ [''J'', ''Q'', ''K'']"

text \<open>
  \<^verbatim>\<open>makeDeck\<close>: the two nested \<^verbatim>\<open>for ... of\<close> loops, each a fold that pushes onto
  the array built so far.
\<close>

definition makeDeck :: "card list" where
  "makeDeck =
     fold (\<lambda>s d. fold (\<lambda>r d'. d' @ [\<lparr>card_id = r @ ''-'' @ s, rank = r, suit = s\<rparr>]) RANKS d)
       SUITS []"

subsection \<open>Helpers\<close>

text \<open>\<^verbatim>\<open>Array.prototype.findIndex\<close>: the first index whose element satisfies the test, or -1.\<close>

fun findIndex :: "('a \<Rightarrow> bool) \<Rightarrow> 'a list \<Rightarrow> int" where
  "findIndex P [] = - 1"
| "findIndex P (x # xs) =
     (if P x then 0 else (let k = findIndex P xs in if k = - 1 then - 1 else k + 1))"

definition findCardIndexById :: "string \<Rightarrow> store \<Rightarrow> int" where
  "findCardIndexById i s = findIndex (\<lambda>c. card_id c = i) (deck s)"

text \<open>
  \<^verbatim>\<open>shuffleArray\<close>. The values that \<^verbatim>\<open>Math.random()\<close> returns are the sequence
  \<open>rnd\<close>, the \<open>k\<close>-th call returning \<open>rnd k\<close>; the specification of
  \<^verbatim>\<open>Math.random\<close> puts each in \<open>[0, 1)\<close>. The loop counts \<open>i\<close> down from
  \<open>length arr - 1\<close> while \<open>i > 0\<close>; on the empty array \<open>length arr - 1\<close> is -1 in the
  source and 0 here, and the loop does not run in either.
\<close>

definition random_ok :: "(nat \<Rightarrow> rat) \<Rightarrow> bool" where
  "random_ok rnd = (\<forall>k. 0 \<le> rnd k \<and> rnd k < 1)"

definition swap :: "'a list \<Rightarrow> nat \<Rightarrow> nat \<Rightarrow> 'a list" where
  "swap arr i j = arr[i := arr ! j, j := arr ! i]"

fun shuffle_loop :: "(nat \<Rightarrow> rat) \<Rightarrow> nat \<Rightarrow> nat \<Rightarrow> 'a list \<Rightarrow> 'a list" where
  "shuffle_loop rnd k 0 arr = arr"
| "shuffle_loop rnd k (Suc i) arr =
     (let j = nat \<lfloor>rnd k * of_nat (Suc i + 1)\<rfloor>
      in shuffle_loop rnd (k + 1) i (swap arr (Suc i) j))"

definition shuffleArray :: "(nat \<Rightarrow> rat) \<Rightarrow> 'a list \<Rightarrow> 'a list" where
  "shuffleArray rnd arr = shuffle_loop rnd 0 (length arr - 1) arr"

subsection \<open>Route handlers\<close>

text \<open>
  Each handler takes the store and returns its response with the store it leaves.
  The handlers are anonymous in the source and carry the names of the operations here:
  \<open>addCard\<close> is \<^verbatim>\<open>POST /cards\<close>, \<open>updateCard\<close> is \<^verbatim>\<open>PUT /cards/:id\<close>, \<open>removeCard\<close> is
  \<^verbatim>\<open>DELETE /cards/:id\<close>, \<open>shuffle\<close> is \<^verbatim>\<open>POST /shuffle\<close>, \<open>draw\<close> is \<^verbatim>\<open>POST /draw\<close>,
  \<open>peek\<close> is \<^verbatim>\<open>GET /peek\<close> and \<open>reset\<close> is \<^verbatim>\<open>POST /reset\<close>.
\<close>

definition has_id :: "string \<Rightarrow> store \<Rightarrow> bool" where
  \<comment> \<open>\<^verbatim>\<open>deck.some(c => c.id === x) || discardPile.some(c => c.id === x)\<close>\<close>
  "has_id x s = (list_ex (\<lambda>c. card_id c = x) (deck s) \<or> list_ex (\<lambda>c. card_id c = x) (discardPile s))"

definition addCard :: "string option \<Rightarrow> string option \<Rightarrow> string option \<Rightarrow> store \<Rightarrow> response \<times> store" where
  "addCard r su i s =
     (if \<not> truthy r \<or> \<not> truthy su then ((400, Error ''rank and suit are required''), s)
      else
        let cardId = (if truthy i then str i else str r @ ''-'' @ str su)
        in if has_id cardId s then ((409, Error ''A card with that id already exists''), s)
           else
             let newCard = \<lparr>card_id = cardId, rank = str r, suit = str su\<rparr>
             in ((201, Card newCard), s\<lparr>deck := deck s @ [newCard]\<rparr>))"

definition set_card :: "nat \<Rightarrow> (card \<Rightarrow> card) \<Rightarrow> store \<Rightarrow> store" where
  \<comment> \<open>a field write through \<^verbatim>\<open>card = deck[idx]\<close>\<close>
  "set_card n f s = s\<lparr>deck := (deck s)[n := f (deck s ! n)]\<rparr>"

definition updateCard :: "string \<Rightarrow> string option \<Rightarrow> string option \<Rightarrow> string option \<Rightarrow> store \<Rightarrow> response \<times> store" where
  "updateCard i r su newId s =
     (let idx = findCardIndexById i s
      in if idx = - 1 then ((404, Error ''Card not in deck''), s)
         else
           let n = nat idx;
               s1 = (if truthy r then set_card n (\<lambda>c. c\<lparr>rank := str r\<rparr>) s else s);
               s2 = (if truthy su then set_card n (\<lambda>c. c\<lparr>suit := str su\<rparr>) s1 else s1)
           in if truthy newId then
                if has_id (str newId) s2 then ((409, Error ''newId already exists''), s2)
                else
                  let s3 = set_card n (\<lambda>c. c\<lparr>card_id := str newId\<rparr>) s2
                  in ((200, Card (deck s3 ! n)), s3)
              else ((200, Card (deck s2 ! n)), s2))"

definition removeCard :: "string \<Rightarrow> store \<Rightarrow> response \<times> store" where
  "removeCard i s =
     (let idx = findCardIndexById i s
      in if idx = - 1 then ((404, Error ''Card not found in deck''), s)
         else
           let n = nat idx; removed = deck s ! n
           in ((200, Removed removed),
               s\<lparr>deck := take n (deck s) @ drop (n + 1) (deck s),
                 discardPile := discardPile s @ [removed]\<rparr>))"

definition shuffle :: "(nat \<Rightarrow> rat) \<Rightarrow> store \<Rightarrow> response \<times> store" where
  "shuffle rnd s =
     (let d = shuffleArray rnd (deck s)
      in ((200, Status ''shuffled'' (length d)), s\<lparr>deck := d\<rparr>))"

text \<open>
  A number of the host language is a double: \<open>NaN\<close>, an infinity, or a finite value,
  which is a rational (both zeros are \<open>Fin 0\<close>). The model takes every rational for a
  finite value, so what holds of every \<open>number\<close> holds of every double.
\<close>

datatype number = NaN | Fin rat | PosInf | NegInf

text \<open>\<^verbatim>\<open>Math.max(a, x)\<close> for a finite \<open>a\<close>: \<open>NaN\<close> when \<open>x\<close> is.\<close>

definition Math_max :: "rat \<Rightarrow> number \<Rightarrow> number" where
  "Math_max a x =
     (case x of NaN \<Rightarrow> NaN | Fin q \<Rightarrow> Fin (max a q) | PosInf \<Rightarrow> PosInf | NegInf \<Rightarrow> Fin a)"

text \<open>The comparison \<^verbatim>\<open>i < n\<close> of an integer \<open>i\<close> with a number: false when \<open>n\<close> is \<open>NaN\<close>.\<close>

definition less_num :: "int \<Rightarrow> number \<Rightarrow> bool" where
  "less_num i n =
     (case n of NaN \<Rightarrow> False | Fin q \<Rightarrow> of_int i < q | PosInf \<Rightarrow> True | NegInf \<Rightarrow> False)"

text \<open>
  \<^verbatim>\<open>arr.slice(0, n)\<close>: the end is \<open>n\<close> cut to an integer towards zero (\<open>NaN\<close> gives 0);
  a negative end counts from the end of the array.
\<close>

definition slice0 :: "number \<Rightarrow> 'a list \<Rightarrow> 'a list" where
  "slice0 n xs =
     (case n of
        NaN \<Rightarrow> []
      | Fin q \<Rightarrow>
          (let e = (if q < 0 then \<lceil>q\<rceil> else \<lfloor>q\<rfloor>)
           in if e < 0 then take (nat (int (length xs) + e)) xs else take (nat e) xs)
      | PosInf \<Rightarrow> xs
      | NegInf \<Rightarrow> [])"

text \<open>
  The loop of \<^verbatim>\<open>POST /draw\<close>: \<^verbatim>\<open>for (let i = 0; i < n && deck.length > 0; i++)\<close>,
  each round shifting the first card off the deck and pushing it onto \<^verbatim>\<open>drawn\<close>
  and onto the discard pile. The counter \<open>i\<close> never exceeds the length of the deck,
  so it is an integer, exactly.
\<close>

function draw_loop :: "int \<Rightarrow> number \<Rightarrow> card list \<Rightarrow> store \<Rightarrow> card list \<times> store" where
  "draw_loop i n drawn s =
     (if less_num i n \<and> deck s \<noteq> [] then
        let c = hd (deck s)
        in draw_loop (i + 1) n (drawn @ [c])
             (s\<lparr>deck := tl (deck s), discardPile := discardPile s @ [c]\<rparr>)
      else (drawn, s))"
  by pat_completeness auto
termination
  by (relation "measure (\<lambda>(i, n, drawn, s). length (deck s))") auto

text \<open>
  \<open>draw\<close> and \<open>peek\<close> take the number \<^verbatim>\<open>Number(req.query.n || req.body.n || 1)\<close>,
  whatever it is, and pass it through \<^verbatim>\<open>Math.max(1, ...)\<close>.
\<close>

definition draw :: "number \<Rightarrow> store \<Rightarrow> response \<times> store" where
  "draw m s =
     (let n = Math_max 1 m
      in if length (deck s) = 0 then ((400, Error ''Deck is empty''), s)
         else
           let (drawn, s') = draw_loop 0 n [] s
           in ((200, Drawn drawn (length (deck s'))), s'))"

definition peek :: "number \<Rightarrow> store \<Rightarrow> response \<times> store" where
  "peek m s = (let n = Math_max 1 m in ((200, Cards (slice0 n (deck s))), s))"

definition reset :: "store \<Rightarrow> response \<times> store" where
  "reset s =
     (let s1 = s\<lparr>deck := makeDeck\<rparr>; s2 = s1\<lparr>discardPile := []\<rparr>
      in ((200, Status ''reset'' (length (deck s2))), s2))"

text \<open>The mutating routes and the dispatch of a request to its handler.\<close>

datatype request =
  AddCard "string option" "string option" "string option"
  | UpdateCard string "string option" "string option" "string option"
  | RemoveCard string
  | Shuffle
  | Draw number
  | Peek number
  | Reset

fun handle :: "(nat \<Rightarrow> rat) \<Rightarrow> request \<Rightarrow> store \<Rightarrow> response \<times> store" where
  "handle rnd (AddCard r su i) s = addCard r su i s"
| "handle rnd (UpdateCard i r su newId) s = updateCard i r su newId s"
| "handle rnd (RemoveCard i) s = removeCard i s"
| "handle rnd Shuffle s = shuffle rnd s"
| "handle rnd (Draw m) s = draw m s"
| "handle rnd (Peek m) s = peek m s"
| "handle rnd Reset s = reset s"

definition ids :: "store \<Rightarrow> string list" where
  "ids s = map card_id (deck s @ discardPile s)"

section \<open>Library CLI (book-cli.js)\<close>

subsection \<open>Strings and numbers of the host language\<close>

text \<open>
  A string is a list of characters, the code units below 256 (Latin-1).
  \<^verbatim>\<open>String.prototype.trim\<close> removes white space and line terminators from both
  ends; among these characters they are tab, line feed, vertical tab, form feed,
  carriage return, space and no-break space. \<^verbatim>\<open>toLowerCase\<close> adds 32 to the
  capital letters: A to Z, and the accented capitals of Latin-1 (192 to 222 without
  the multiplication sign 215).
\<close>

definition isSpace :: "char \<Rightarrow> bool" where
  "isSpace ch = ((of_char ch :: nat) \<in> {9, 10, 11, 12, 13, 32, 160})"

definition trim :: "string \<Rightarrow> string" where
  "trim x = rev (dropWhile isSpace (rev (dropWhile isSpace x)))"



text \<open>
  A number is falsy when it is \<open>NaN\<close> or zero.

  \<^verbatim>\<open>Number(x)\<close> on a string already trimmed: the empty string gives 0, a string of
  decimal digits denoting less than \<open>2^53\<close> gives that integer exactly. What the built-in
  returns on every other string (signs, fractions, exponents, other radixes, longer
  numerals, which it rounds, text that is no numeral) is the parameter \<open>other\<close>.
\<close>

definition truthy_num :: "number \<Rightarrow> bool" where
  "truthy_num x = (x \<noteq> NaN \<and> x \<noteq> Fin 0)"

definition isDigit :: "char \<Rightarrow> bool" where
  "isDigit ch = (48 \<le> (of_char ch :: nat) \<and> (of_char ch :: nat) \<le> 57)"

definition decimal :: "string \<Rightarrow> int" where
  "decimal x = foldl (\<lambda>a ch. 10 * a + (of_char ch - 48)) 0 x"

definition Number :: "(string \<Rightarrow> number) \<Rightarrow> string \<Rightarrow> number" where
  "Number other x =
     (if x = [] then Fin 0
      else if list_all isDigit x \<and> decimal x < 2 ^ 53 then Fin (of_int (decimal x))
      else other x)"

subsection \<open>Data model\<close>

text \<open>
  A book is \<^verbatim>\<open>{ id, title, author, year?, isbn? }\<close>, the field \<^verbatim>\<open>id\<close> being
  \<open>book_id\<close> here. The module variables are \<^verbatim>\<open>books\<close> and \<^verbatim>\<open>nextId\<close>. The state of
  a session adds the lines of standard input that are still unread, which
  \<^verbatim>\<open>question\<close> consumes one at a time, and what \<^verbatim>\<open>console.log\<close> has printed
  (the prompts themselves are left out).

  The counter \<^verbatim>\<open>nextId\<close> is a double that holds an integer. It starts at 3 and only
  \<^verbatim>\<open>nextId++\<close> writes it. Below \<open>2^53\<close> the sum \<open>n + 1\<close> is a double; at \<open>2^53\<close>
  it lies halfway between the doubles \<open>2^53\<close> and \<open>2^53 + 2\<close> and is rounded to the
  even one, \<open>2^53\<close> itself: there the counter stays, and it takes no value above.
\<close>

definition increment :: "int \<Rightarrow> int" where
  "increment n = (if n < 2 ^ 53 then n + 1 else n)"

record book =
  book_id :: int
  title :: string
  author :: string
  year :: "number option"
  isbn :: "string option"

datatype out = Log string | LogBook string book

record cli =
  books :: "book list"
  nextId :: int
  stdin :: "string list"
  stdout :: "out list"

definition sample :: "book list" where
  "sample =
     [\<lparr>book_id = 1, title = ''The Pragmatic Programmer'', author = ''Andrew Hunt'',
       year = Some (Fin 1999), isbn = None\<rparr>,
      \<lparr>book_id = 2, title = ''Clean Code'', author = ''Robert C. Martin'',
       year = Some (Fin 2008), isbn = None\<rparr>]"

text \<open>\<^verbatim>\<open>books.length ? Math.max(...books.map(b => b.id)) + 1 : 1\<close>\<close>

definition seed :: "book list \<Rightarrow> int" where
  "seed bs = (if length bs \<noteq> 0 then increment (Max (set (map book_id bs))) else 1)"

definition initial :: "string list \<Rightarrow> cli" where
  "initial inp = \<lparr>books = sample, nextId = seed sample, stdin = inp, stdout = []\<rparr>"

subsection \<open>Commands\<close>

text \<open>
  \<^verbatim>\<open>question\<close> hands over the next line of input. When the input has ended the
  promise is never resolved and the process exits on \<^verbatim>\<open>close\<close>: the command does
  not return, which is \<open>None\<close>.
\<close>

definition question :: "cli \<Rightarrow> (string \<times> cli) option" where
  "question c = (case stdin c of [] \<Rightarrow> None | l # ls \<Rightarrow> Some (l, c\<lparr>stdin := ls\<rparr>))"

definition console_log :: "out \<Rightarrow> cli \<Rightarrow> cli" where
  "console_log x c = c\<lparr>stdout := stdout c @ [x]\<rparr>"

text \<open>
  \<^verbatim>\<open>cmdAdd\<close>. The object literal \<^verbatim>\<open>{ id: nextId++, title, author }\<close> reads the
  counter and then increments it; \<^verbatim>\<open>year\<close> and \<^verbatim>\<open>isbn\<close> are set under
  \<^verbatim>\<open>if (year)\<close> and \<^verbatim>\<open>if (isbn)\<close>.
\<close>

definition cmdAdd :: "(string \<Rightarrow> number) \<Rightarrow> cli \<Rightarrow> cli option" where
  "cmdAdd other c0 = do {
     (l1, c1) \<leftarrow> question c0;
     let title' = trim l1;
     if title' = [] then Some (console_log (Log ''Title is required. Aborting add.'') c1)
     else do {
       (l2, c2) \<leftarrow> question c1;
       let author' = (if trim l2 = [] then ''Unknown'' else trim l2);
       (l3, c3) \<leftarrow> question c2;
       let yearRaw = trim l3;
       let year' = (if yearRaw \<noteq> [] then Some (Number other yearRaw) else None);
       (l4, c4) \<leftarrow> question c3;
       let isbn' = (if trim l4 = [] then None else Some (trim l4));
       let b = \<lparr>book_id = nextId c4, title = title', author = author', year = None, isbn = None\<rparr>;
       let c5 = c4\<lparr>nextId := increment (nextId c4)\<rparr>;
       let b1 = (case year' of Some y \<Rightarrow> if truthy_num y then b\<lparr>year := Some y\<rparr> else b | None \<Rightarrow> b);
       let b2 = (case isbn' of Some x \<Rightarrow> if x \<noteq> [] then b1\<lparr>isbn := Some x\<rparr> else b1 | None \<Rightarrow> b1);
       Some (console_log (LogBook ''Added:'' b2) (c5\<lparr>books := books c5 @ [b2]\<rparr>))
     }
   }"









section \<open>Inputs of the worked examples\<close>

text \<open>
  A store of three cards in the deck and one discarded; a random source that
  always returns one half; and the completion of \<^verbatim>\<open>Number\<close> that takes every
  string outside the decimal numerals to \<open>NaN\<close>.
\<close>

definition table :: store where
  "table =
     \<lparr>deck = [\<lparr>card_id = ''A-Clubs'', rank = ''A'', suit = ''Clubs''\<rparr>,
              \<lparr>card_id = ''2-Clubs'', rank = ''2'', suit = ''Clubs''\<rparr>,
              \<lparr>card_id = ''3-Clubs'', rank = ''3'', suit = ''Clubs''\<rparr>],
      discardPile = [\<lparr>card_id = ''K-Spades'', rank = ''K'', suit = ''Spades''\<rparr>]\<rparr>"

definition coin :: "nat \<Rightarrow> rat" where
  "coin k = 1 / 2"

definition nan :: "string \<Rightarrow> number" where
  "nan x = NaN"

section \<open>Properties of the playing cards API\<close>

subsection \<open>Helpers\<close>

lemma findIndex_ge: "- 1 \<le> findIndex P xs"
  by (induction xs) (auto simp: Let_def)

lemma findIndex_none: "(findIndex P xs = - 1) = (\<forall>x\<in>set xs. \<not> P x)"
proof (induction xs)
  case Nil
  show ?case by simp
next
  case (Cons x xs)
  have "- 1 \<le> findIndex P xs" by (rule findIndex_ge)
  with Cons show ?case by (auto simp: Let_def)
qed

lemma findIndex_found:
  "findIndex P xs \<noteq> - 1 \<Longrightarrow>
     0 \<le> findIndex P xs \<and> nat (findIndex P xs) < length xs \<and> P (xs ! nat (findIndex P xs))
     \<and> (\<forall>m < nat (findIndex P xs). \<not> P (xs ! m))"
proof (induction xs)
  case Nil
  then show ?case by simp
next
  case (Cons x xs)
  show ?case
  proof (cases "P x")
    case True
    then show ?thesis by simp
  next
    case False
    with Cons.prems have ne: "findIndex P xs \<noteq> - 1" by (auto simp: Let_def split: if_splits)
    from Cons.IH [OF ne] have ih: "0 \<le> findIndex P xs" "nat (findIndex P xs) < length xs"
      "P (xs ! nat (findIndex P xs))" "\<forall>m < nat (findIndex P xs). \<not> P (xs ! m)" by auto
    have eq: "findIndex P (x # xs) = findIndex P xs + 1" using False ne by (simp add: Let_def)
    have n: "nat (findIndex P xs + 1) = Suc (nat (findIndex P xs))" using ih(1) by simp
    show ?thesis unfolding eq n using ih False by (auto simp: nth_Cons split: nat.splits)
  qed
qed

subsection \<open>The fresh deck\<close>

lemma makeDeck_eq: "makeDeck = concat (map (\<lambda>s. map (\<lambda>r. \<lparr>card_id = r @ ''-'' @ s, rank = r, suit = s\<rparr>) RANKS) SUITS)"
  by (simp add: makeDeck_def SUITS_def RANKS_def)

lemma makeDeck_len: "length makeDeck = 52"
  by (simp add: makeDeck_def SUITS_def RANKS_def)

lemma makeDeck_distinct: "distinct (map card_id makeDeck)"
  by (simp add: makeDeck_def SUITS_def RANKS_def)

text \<open>
  C2. After \<open>reset\<close>, whatever the two sequences held before, the deck is the 52 cards
  in suit-major, rank-minor order (Clubs, Diamonds, Hearts, Spades, each with
  A, 2 to 10, J, Q, K), each with the id \<^verbatim>\<open><rank>-<suit>\<close>; the ids are pairwise
  distinct and the discard pile is empty.
\<close>

theorem reset_fresh_deck:
  "deck (snd (reset s)) =
     concat (map (\<lambda>su. map (\<lambda>r. \<lparr>card_id = r @ ''-'' @ su, rank = r, suit = su\<rparr>)
                        ([''A'', ''2'', ''3'', ''4'', ''5''] @ [''6'', ''7'', ''8'', ''9'', ''10''] @ [''J'', ''Q'', ''K'']))
                 [''Clubs'', ''Diamonds'', ''Hearts'', ''Spades''])
   \<and> length (deck (snd (reset s))) = 52
   \<and> distinct (map card_id (deck (snd (reset s))))
   \<and> discardPile (snd (reset s)) = []
   \<and> fst (reset s) = (200, Status ''reset'' 52)"
proof -
  have d: "deck (snd (reset s)) = makeDeck" by (simp add: reset_def)
  have e: "makeDeck = concat (map (\<lambda>su. map (\<lambda>r. \<lparr>card_id = r @ ''-'' @ su, rank = r, suit = su\<rparr>)
                        ([''A'', ''2'', ''3'', ''4'', ''5''] @ [''6'', ''7'', ''8'', ''9'', ''10''] @ [''J'', ''Q'', ''K'']))
                 [''Clubs'', ''Diamonds'', ''Hearts'', ''Spades''])"
    using makeDeck_eq by (simp add: SUITS_def RANKS_def)
  have r: "fst (reset s) = (200, Status ''reset'' 52)" by (simp add: reset_def makeDeck_len)
  have p: "discardPile (snd (reset s)) = []" by (simp add: reset_def)
  show ?thesis using d e r p makeDeck_len makeDeck_distinct by metis
qed

subsection \<open>Drawing\<close>

text \<open>Whatever the number \<open>n\<close>, the loop moves some first cards of the deck, in order.\<close>

lemma draw_loop_some:
  "\<exists>k. draw_loop i n drawn s =
     (drawn @ take k (deck s),
      s\<lparr>deck := drop k (deck s), discardPile := discardPile s @ take k (deck s)\<rparr>)"
proof (induction i n drawn s rule: draw_loop.induct)
  case (1 i n drawn s)
  show ?case
  proof (cases "less_num i n \<and> deck s \<noteq> []")
    case True
    then obtain c cs where d: "deck s = c # cs" by (cases "deck s") auto
    have e: "draw_loop i n drawn s =
        draw_loop (i + 1) n (drawn @ [c]) (s\<lparr>deck := cs, discardPile := discardPile s @ [c]\<rparr>)"
      using True d by (subst draw_loop.simps) (simp add: Let_def)
    from "1.IH" [OF True refl] d obtain k where
      "draw_loop (i + 1) n (drawn @ [c]) (s\<lparr>deck := cs, discardPile := discardPile s @ [c]\<rparr>) =
         (drawn @ take (Suc k) (deck s),
          s\<lparr>deck := drop (Suc k) (deck s), discardPile := discardPile s @ take (Suc k) (deck s)\<rparr>)"
      by auto
    with e show ?thesis by metis
  next
    case False
    then have "draw_loop i n drawn s =
        (drawn @ take 0 (deck s),
         s\<lparr>deck := drop 0 (deck s), discardPile := discardPile s @ take 0 (deck s)\<rparr>)"
      by (subst draw_loop.simps) auto
    then show ?thesis by blast
  qed
qed

text \<open>For an integer \<open>m\<close> the loop runs \<open>m - i\<close> times, or until the deck is empty.\<close>

lemma draw_loop_int:
  "draw_loop i (Fin (of_int m)) drawn s =
     (drawn @ take (nat (m - i)) (deck s),
      s\<lparr>deck := drop (nat (m - i)) (deck s),
        discardPile := discardPile s @ take (nat (m - i)) (deck s)\<rparr>)"
proof (induction i "Fin (of_int m)" drawn s rule: draw_loop.induct)
  case (1 i drawn s)
  have l: "less_num i (Fin (of_int m)) = (i < m)" by (simp add: less_num_def)
  show ?case
  proof (cases "i < m \<and> deck s \<noteq> []")
    case True
    then obtain c cs where d: "deck s = c # cs" by (cases "deck s") auto
    from True have k: "nat (m - i) = Suc (nat (m - (i + 1)))" by linarith
    from True l have t: "less_num i (Fin (of_int m)) \<and> deck s \<noteq> []" by simp
    have "draw_loop i (Fin (of_int m)) drawn s =
        draw_loop (i + 1) (Fin (of_int m)) (drawn @ [c]) (s\<lparr>deck := cs, discardPile := discardPile s @ [c]\<rparr>)"
      using t d by (subst draw_loop.simps) (simp add: Let_def)
    also have "\<dots> = (drawn @ take (nat (m - i)) (deck s),
      s\<lparr>deck := drop (nat (m - i)) (deck s),
        discardPile := discardPile s @ take (nat (m - i)) (deck s)\<rparr>)"
      using "1.hyps" [OF t refl] d unfolding k by simp
    finally show ?thesis .
  next
    case False
    with l have "\<not> (less_num i (Fin (of_int m)) \<and> deck s \<noteq> [])" by simp
    then show ?thesis using False by (subst draw_loop.simps) auto
  qed
qed

text \<open>
  C3, as amended. For every integer \<open>n \<ge> 1\<close>, \<open>draw n\<close> answers 400 exactly when the
  deck is empty, and then leaves the store as it is. Otherwise it takes the first
  \<open>min n (length deck)\<close> cards off the front of the deck in their order, appends them
  in that order to the discard pile, and returns them with the number of cards
  left. The two sequences together hold as many cards after as before.
\<close>

theorem draw_spec:
  "1 \<le> n \<Longrightarrow>
     ((fst (fst (draw (Fin (of_int n)) s)) = 400) = (deck s = []))
   \<and> (deck s = [] \<longrightarrow> draw (Fin (of_int n)) s = ((400, Error ''Deck is empty''), s))
   \<and> (deck s \<noteq> [] \<longrightarrow>
        (let k = min (nat n) (length (deck s))
         in draw (Fin (of_int n)) s =
              ((200, Drawn (take k (deck s)) (length (deck s) - k)),
               s\<lparr>deck := drop k (deck s), discardPile := discardPile s @ take k (deck s)\<rparr>)))
   \<and> length (deck (snd (draw (Fin (of_int n)) s))) + length (discardPile (snd (draw (Fin (of_int n)) s)))
       = length (deck s) + length (discardPile s)"
proof -
  assume n: "1 \<le> n"
  then have m: "Math_max 1 (Fin (of_int n)) = Fin (of_int n)" by (simp add: Math_max_def max_def)
  show ?thesis
  proof (cases "deck s = []")
    case True
    then show ?thesis by (simp add: draw_def)
  next
    case False
    have t: "take (min (nat n) (length (deck s))) (deck s) = take (nat n) (deck s)"
      by (simp add: min_def)
    have d: "drop (min (nat n) (length (deck s))) (deck s) = drop (nat n) (deck s)"
      by (simp add: min_def)
    have l: "length (deck s) - min (nat n) (length (deck s)) = length (deck s) - nat n"
      by (simp add: min_def)
    have e: "draw (Fin (of_int n)) s =
        ((200, Drawn (take (nat n) (deck s)) (length (deck s) - nat n)),
         s\<lparr>deck := drop (nat n) (deck s), discardPile := discardPile s @ take (nat n) (deck s)\<rparr>)"
      using False by (simp add: draw_def m draw_loop_int del: draw_loop.simps)
    show ?thesis using False unfolding Let_def t d l e by (simp add: min_def)
  qed
qed

text \<open>Two cards of three are drawn, then the last one by a draw of seven, then none.\<close>

theorem draw_spec_witness:
  "(1::int) \<le> 2 \<and>
   draw (Fin 2) table =
     ((200, Drawn [\<lparr>card_id = ''A-Clubs'', rank = ''A'', suit = ''Clubs''\<rparr>,
                   \<lparr>card_id = ''2-Clubs'', rank = ''2'', suit = ''Clubs''\<rparr>] 1),
      \<lparr>deck = [\<lparr>card_id = ''3-Clubs'', rank = ''3'', suit = ''Clubs''\<rparr>],
       discardPile = [\<lparr>card_id = ''K-Spades'', rank = ''K'', suit = ''Spades''\<rparr>,
                      \<lparr>card_id = ''A-Clubs'', rank = ''A'', suit = ''Clubs''\<rparr>,
                      \<lparr>card_id = ''2-Clubs'', rank = ''2'', suit = ''Clubs''\<rparr>]\<rparr>)
   \<and> fst (draw (Fin 7) (snd (draw (Fin 2) table))) =
       (200, Drawn [\<lparr>card_id = ''3-Clubs'', rank = ''3'', suit = ''Clubs''\<rparr>] 0)
   \<and> fst (draw (Fin 1) (snd (draw (Fin 7) (snd (draw (Fin 2) table))))) = (400, Error ''Deck is empty'')"
proof -
  have a: "(1::int) \<le> 2" "(1::int) \<le> 7" "(1::int) \<le> 1" by simp_all
  note s1 = draw_spec [OF a(1), of table]
  from s1 have d1: "draw (Fin 2) table =
     ((200, Drawn [\<lparr>card_id = ''A-Clubs'', rank = ''A'', suit = ''Clubs''\<rparr>,
                   \<lparr>card_id = ''2-Clubs'', rank = ''2'', suit = ''Clubs''\<rparr>] 1),
      \<lparr>deck = [\<lparr>card_id = ''3-Clubs'', rank = ''3'', suit = ''Clubs''\<rparr>],
       discardPile = [\<lparr>card_id = ''K-Spades'', rank = ''K'', suit = ''Spades''\<rparr>,
                      \<lparr>card_id = ''A-Clubs'', rank = ''A'', suit = ''Clubs''\<rparr>,
                      \<lparr>card_id = ''2-Clubs'', rank = ''2'', suit = ''Clubs''\<rparr>]\<rparr>)"
    by (simp add: table_def Let_def)
  note s2 = draw_spec [OF a(2), of "snd (draw (Fin 2) table)"]
  from s2 have d2: "draw (Fin 7) (snd (draw (Fin 2) table)) =
     ((200, Drawn [\<lparr>card_id = ''3-Clubs'', rank = ''3'', suit = ''Clubs''\<rparr>] 0),
      \<lparr>deck = [],
       discardPile = [\<lparr>card_id = ''K-Spades'', rank = ''K'', suit = ''Spades''\<rparr>,
                      \<lparr>card_id = ''A-Clubs'', rank = ''A'', suit = ''Clubs''\<rparr>,
                      \<lparr>card_id = ''2-Clubs'', rank = ''2'', suit = ''Clubs''\<rparr>,
                      \<lparr>card_id = ''3-Clubs'', rank = ''3'', suit = ''Clubs''\<rparr>]\<rparr>)"
    unfolding d1 by (simp add: Let_def)
  note s3 = draw_spec [OF a(3), of "snd (draw (Fin 7) (snd (draw (Fin 2) table)))"]
  from s3 have d3: "fst (draw (Fin 1) (snd (draw (Fin 7) (snd (draw (Fin 2) table))))) = (400, Error ''Deck is empty'')"
    unfolding d2 by simp
  from d1 d2 d3 show ?thesis by simp
qed

text \<open>
  With \<open>n\<close> one and a half, which is at least 1, the test \<^verbatim>\<open>i < n\<close> holds for \<open>i = 0\<close>
  and \<open>i = 1\<close>: two cards are drawn from a deck of three, more than \<open>n\<close>, where
  \<open>peek\<close> shows one.
\<close>

theorem draw_fraction_counterexample:
  "(1::rat) \<le> 3 / 2
   \<and> draw (Fin (3 / 2)) table =
       ((200, Drawn [\<lparr>card_id = ''A-Clubs'', rank = ''A'', suit = ''Clubs''\<rparr>,
                     \<lparr>card_id = ''2-Clubs'', rank = ''2'', suit = ''Clubs''\<rparr>] 1),
        \<lparr>deck = [\<lparr>card_id = ''3-Clubs'', rank = ''3'', suit = ''Clubs''\<rparr>],
         discardPile = [\<lparr>card_id = ''K-Spades'', rank = ''K'', suit = ''Spades''\<rparr>,
                        \<lparr>card_id = ''A-Clubs'', rank = ''A'', suit = ''Clubs''\<rparr>,
                        \<lparr>card_id = ''2-Clubs'', rank = ''2'', suit = ''Clubs''\<rparr>]\<rparr>)
   \<and> fst (peek (Fin (3 / 2)) table) =
       (200, Cards [\<lparr>card_id = ''A-Clubs'', rank = ''A'', suit = ''Clubs''\<rparr>])"
proof -
  have f: "\<lfloor>3 / 2 :: rat\<rfloor> = 1" by (simp add: floor_eq_iff)
  show ?thesis
    by (simp add: draw_def peek_def slice0_def Math_max_def less_num_def table_def Let_def f)
qed

subsection \<open>Shuffling\<close>

lemma rand_index: "0 \<le> u \<Longrightarrow> u < 1 \<Longrightarrow> nat \<lfloor>(u::rat) * of_nat (Suc i)\<rfloor> < Suc i"
proof -
  assume a: "0 \<le> u" "u < 1"
  have "u * of_nat (Suc i) < of_nat (Suc i)" using a by simp
  then have "\<lfloor>u * of_nat (Suc i)\<rfloor> < int (Suc i)" by (simp add: floor_less_iff)
  then show ?thesis by linarith
qed

lemma mset_shuffle_loop:
  "random_ok rnd \<Longrightarrow> i < length arr \<Longrightarrow> mset (shuffle_loop rnd k i arr) = mset arr"
proof (induction i arbitrary: k arr)
  case 0
  show ?case by simp
next
  case (Suc i)
  let ?j = "nat \<lfloor>rnd k * of_nat (Suc i + 1)\<rfloor>"
  from Suc.prems(1) have "0 \<le> rnd k" "rnd k < 1" by (auto simp: random_ok_def)
  then have "?j < Suc (Suc i)" using rand_index [of "rnd k" "Suc i"] by simp
  with Suc.prems(2) have j: "?j < length arr" by simp
  have sw: "mset (swap arr (Suc i) ?j) = mset arr"
    unfolding swap_def using mset_swap [OF j Suc.prems(2)] .
  have "i < length (swap arr (Suc i) ?j)" using Suc.prems(2) by (simp add: swap_def)
  from Suc.IH [OF Suc.prems(1) this] sw show ?case by (simp add: Let_def)
qed

text \<open>
  C6. Whatever values in \<open>[0, 1)\<close> the random source returns, the deck after
  \<open>shuffle\<close> is a permutation of the deck before (the same cards, as many of them),
  and the discard pile is as it was.
\<close>

theorem shuffle_permutes:
  "random_ok rnd \<Longrightarrow>
     mset (deck (snd (shuffle rnd s))) = mset (deck s)
   \<and> length (deck (snd (shuffle rnd s))) = length (deck s)
   \<and> discardPile (snd (shuffle rnd s)) = discardPile s"
proof -
  assume r: "random_ok rnd"
  have m: "mset (shuffleArray rnd (deck s)) = mset (deck s)"
  proof (cases "deck s")
    case Nil
    then show ?thesis by (simp add: shuffleArray_def)
  next
    case (Cons c cs)
    then have "length (deck s) - 1 < length (deck s)" by simp
    from mset_shuffle_loop [OF r this] show ?thesis by (simp add: shuffleArray_def)
  qed
  from m have "length (shuffleArray rnd (deck s)) = length (deck s)" by (rule mset_eq_length)
  with m show ?thesis by (simp add: shuffle_def Let_def)
qed

theorem shuffle_permutes_witness:
  "random_ok coin
   \<and> mset (deck (snd (shuffle coin table))) = mset (deck table)
   \<and> length (deck (snd (shuffle coin table))) = 3
   \<and> discardPile (snd (shuffle coin table)) = [\<lparr>card_id = ''K-Spades'', rank = ''K'', suit = ''Spades''\<rparr>]"
proof -
  have r: "random_ok coin" by (simp add: random_ok_def coin_def)
  from shuffle_permutes [OF r, of table] r show ?thesis by (simp add: table_def)
qed

subsection \<open>Adding a card\<close>

lemma has_id_iff: "has_id x s = (x \<in> set (ids s))"
  by (auto simp: has_id_def ids_def list_ex_iff)

text \<open>
  C4. \<open>addCard\<close> answers 400 when the rank or the suit is missing (absent or empty)
  and leaves the store as it is. Otherwise the id is the one given or, by default,
  \<^verbatim>\<open><rank>-<suit>\<close>; the answer is 409, the store as it is, exactly when that id is
  in the deck or in the discard pile; otherwise the new card is appended to the deck
  and returned with 201, everything else unchanged.
\<close>

theorem addCard_spec:
  "(\<not> truthy r \<or> \<not> truthy su \<longrightarrow>
      addCard r su i s = ((400, Error ''rank and suit are required''), s))
   \<and> (truthy r \<and> truthy su \<longrightarrow>
        (let cardId = (if truthy i then str i else str r @ ''-'' @ str su);
             newCard = \<lparr>card_id = cardId, rank = str r, suit = str su\<rparr>
         in (cardId \<in> set (ids s) \<longrightarrow>
               addCard r su i s = ((409, Error ''A card with that id already exists''), s))
          \<and> (cardId \<notin> set (ids s) \<longrightarrow>
               addCard r su i s = ((201, Card newCard), s\<lparr>deck := deck s @ [newCard]\<rparr>))))"
  by (simp add: addCard_def has_id_iff Let_def)

theorem addCard_spec_witness:
  "addCard (Some ''Joker'') None None table = ((400, Error ''rank and suit are required''), table)
   \<and> addCard (Some ''K'') (Some ''Spades'') None table =
       ((409, Error ''A card with that id already exists''), table)
   \<and> addCard (Some ''Joker'') (Some ''Black'') (Some ''joker-black'') table =
       ((201, Card \<lparr>card_id = ''joker-black'', rank = ''Joker'', suit = ''Black''\<rparr>),
        table\<lparr>deck := deck table @ [\<lparr>card_id = ''joker-black'', rank = ''Joker'', suit = ''Black''\<rparr>]\<rparr>)"
  using addCard_spec [of "Some ''Joker''" None None table]
    addCard_spec [of "Some ''K''" "Some ''Spades''" None table]
    addCard_spec [of "Some ''Joker''" "Some ''Black''" "Some ''joker-black''" table]
  by (simp add: truthy_def str_def ids_def table_def Let_def)

subsection \<open>Updating a card\<close>

lemma not_found_iff: "(findCardIndexById i s = - 1) = (i \<notin> card_id ` set (deck s))"
  by (auto simp: findCardIndexById_def findIndex_none)

lemma found_index:
  assumes "i \<in> card_id ` set (deck s)"
  shows "nat (findCardIndexById i s) < length (deck s)"
    and "card_id (deck s ! nat (findCardIndexById i s)) = i"
    and "\<forall>m < nat (findCardIndexById i s). card_id (deck s ! m) \<noteq> i"
proof -
  from assms have "findIndex (\<lambda>c. card_id c = i) (deck s) \<noteq> - 1"
    using not_found_iff [of i s] by (simp add: findCardIndexById_def)
  from findIndex_found [OF this]
  show "nat (findCardIndexById i s) < length (deck s)"
    and "card_id (deck s ! nat (findCardIndexById i s)) = i"
    and "\<forall>m < nat (findCardIndexById i s). card_id (deck s ! m) \<noteq> i"
    by (simp_all add: findCardIndexById_def)
qed

lemma ids_set_deck:
  "n < length (deck s) \<Longrightarrow> ids (s\<lparr>deck := (deck s)[n := c]\<rparr>) = (ids s)[n := card_id c]"
  by (simp add: ids_def map_update list_update_append1)

lemma ids_same:
  "card_id c = card_id (deck s ! n) \<Longrightarrow> ids (s\<lparr>deck := (deck s)[n := c]\<rparr>) = ids s"
proof (cases "n < length (deck s)")
  case True
  assume "card_id c = card_id (deck s ! n)"
  with True have "(map card_id (deck s))[n := card_id c] = map card_id (deck s)"
    by (simp add: list_update_same_conv)
  then show ?thesis by (simp add: ids_def map_update)
next
  case False
  then show ?thesis by (simp add: ids_def list_update_beyond)
qed

lemma updateCard_found:
  assumes f: "i \<in> card_id ` set (deck s)"
  shows "updateCard i r su newId s =
    (let n = nat (findCardIndexById i s); c = deck s ! n;
         c1 = c\<lparr>rank := (if truthy r then str r else rank c),
                suit := (if truthy su then str su else suit c)\<rparr>
     in if truthy newId then
          if str newId \<in> set (ids s)
          then ((409, Error ''newId already exists''), s\<lparr>deck := (deck s)[n := c1]\<rparr>)
          else ((200, Card (c1\<lparr>card_id := str newId\<rparr>)),
                s\<lparr>deck := (deck s)[n := c1\<lparr>card_id := str newId\<rparr>]\<rparr>)
        else ((200, Card c1), s\<lparr>deck := (deck s)[n := c1]\<rparr>))"
proof -
  let ?n = "nat (findCardIndexById i s)"
  let ?c = "deck s ! ?n"
  let ?c1 = "?c\<lparr>rank := (if truthy r then str r else rank ?c),
                suit := (if truthy su then str su else suit ?c)\<rparr>"
  let ?s1 = "if truthy r then set_card ?n (\<lambda>c. c\<lparr>rank := str r\<rparr>) s else s"
  let ?s2 = "if truthy su then set_card ?n (\<lambda>c. c\<lparr>suit := str su\<rparr>) ?s1 else ?s1"
  from f have ne: "findCardIndexById i s \<noteq> - 1" by (simp add: not_found_iff)
  from found_index(1) [OF f] have len: "?n < length (deck s)" .
  have s2: "?s2 = s\<lparr>deck := (deck s)[?n := ?c1]\<rparr>"
    using len by (simp add: set_card_def)
  have h: "has_id (str newId) (s\<lparr>deck := (deck s)[?n := ?c1]\<rparr>) = (str newId \<in> set (ids s))"
    by (simp add: has_id_iff ids_same)
  have s3: "set_card ?n (\<lambda>c. c\<lparr>card_id := str newId\<rparr>) (s\<lparr>deck := (deck s)[?n := ?c1]\<rparr>)
      = s\<lparr>deck := (deck s)[?n := ?c1\<lparr>card_id := str newId\<rparr>]\<rparr>"
    using len by (simp add: set_card_def)
  have "updateCard i r su newId s =
     (if truthy newId then
        if has_id (str newId) ?s2 then ((409, Error ''newId already exists''), ?s2)
        else ((200, Card (deck (set_card ?n (\<lambda>c. c\<lparr>card_id := str newId\<rparr>) ?s2) ! ?n)),
              set_card ?n (\<lambda>c. c\<lparr>card_id := str newId\<rparr>) ?s2)
      else ((200, Card (deck ?s2 ! ?n)), ?s2))"
    using ne unfolding updateCard_def Let_def by simp
  also have "\<dots> = (if truthy newId then
          if str newId \<in> set (ids s)
          then ((409, Error ''newId already exists''), s\<lparr>deck := (deck s)[?n := ?c1]\<rparr>)
          else ((200, Card (?c1\<lparr>card_id := str newId\<rparr>)),
                s\<lparr>deck := (deck s)[?n := ?c1\<lparr>card_id := str newId\<rparr>]\<rparr>)
        else ((200, Card ?c1), s\<lparr>deck := (deck s)[?n := ?c1]\<rparr>))"
    unfolding s2 h s3 using len by simp
  finally show ?thesis unfolding Let_def .
qed

text \<open>
  C5. \<open>updateCard\<close> answers 404 exactly when no card of the deck has the id (a card
  of the discard pile is not found), and then leaves the store as it is. When the
  card is found, at the first position \<open>n\<close> that holds the id: with a new id that is
  in the deck or in the discard pile the answer is 409; otherwise the card at \<open>n\<close>
  takes the rank, the suit and the new id that were given, keeps every field that
  was not, stays at its position and is returned with 200, everything else unchanged.
\<close>

theorem updateCard_spec:
  "((fst (fst (updateCard i r su newId s)) = 404) = (i \<notin> card_id ` set (deck s)))
   \<and> (i \<notin> card_id ` set (deck s) \<longrightarrow>
        updateCard i r su newId s = ((404, Error ''Card not in deck''), s))
   \<and> (i \<in> card_id ` set (deck s) \<longrightarrow>
        (\<exists>n < length (deck s).
           card_id (deck s ! n) = i \<and> (\<forall>m < n. card_id (deck s ! m) \<noteq> i) \<and>
           (let c = deck s ! n;
                c1 = c\<lparr>rank := (if truthy r then str r else rank c),
                       suit := (if truthy su then str su else suit c)\<rparr>
            in (truthy newId \<and> str newId \<in> set (ids s) \<longrightarrow>
                  fst (updateCard i r su newId s) = (409, Error ''newId already exists''))
             \<and> (truthy newId \<and> str newId \<notin> set (ids s) \<longrightarrow>
                  updateCard i r su newId s =
                    ((200, Card (c1\<lparr>card_id := str newId\<rparr>)),
                     s\<lparr>deck := (deck s)[n := c1\<lparr>card_id := str newId\<rparr>]\<rparr>))
             \<and> (\<not> truthy newId \<longrightarrow>
                  updateCard i r su newId s =
                    ((200, Card c1), s\<lparr>deck := (deck s)[n := c1]\<rparr>)))))"
proof (cases "i \<in> card_id ` set (deck s)")
  case False
  then have "findCardIndexById i s = - 1" by (simp add: not_found_iff)
  then have "updateCard i r su newId s = ((404, Error ''Card not in deck''), s)"
    by (simp add: updateCard_def)
  with False show ?thesis by simp
next
  case True
  let ?n = "nat (findCardIndexById i s)"
  note u = updateCard_found [OF True, of r su newId, unfolded Let_def]
  have st: "fst (fst (updateCard i r su newId s)) \<noteq> 404" unfolding u by simp
  have "?n < length (deck s) \<and> card_id (deck s ! ?n) = i \<and> (\<forall>m < ?n. card_id (deck s ! m) \<noteq> i) \<and>
           (let c = deck s ! ?n;
                c1 = c\<lparr>rank := (if truthy r then str r else rank c),
                       suit := (if truthy su then str su else suit c)\<rparr>
            in (truthy newId \<and> str newId \<in> set (ids s) \<longrightarrow>
                  fst (updateCard i r su newId s) = (409, Error ''newId already exists''))
             \<and> (truthy newId \<and> str newId \<notin> set (ids s) \<longrightarrow>
                  updateCard i r su newId s =
                    ((200, Card (c1\<lparr>card_id := str newId\<rparr>)),
                     s\<lparr>deck := (deck s)[?n := c1\<lparr>card_id := str newId\<rparr>]\<rparr>))
             \<and> (\<not> truthy newId \<longrightarrow>
                  updateCard i r su newId s =
                    ((200, Card c1), s\<lparr>deck := (deck s)[?n := c1]\<rparr>)))"
    using found_index [OF True] unfolding Let_def u by simp
  then show ?thesis using True st by blast
qed

theorem updateCard_spec_witness:
  "updateCard ''K-Spades'' (Some ''King'') None None table = ((404, Error ''Card not in deck''), table)
   \<and> fst (updateCard ''2-Clubs'' None None (Some ''K-Spades'') table) = (409, Error ''newId already exists'')
   \<and> updateCard ''2-Clubs'' (Some ''Two'') None (Some ''two'') table =
       ((200, Card \<lparr>card_id = ''two'', rank = ''Two'', suit = ''Clubs''\<rparr>),
        \<lparr>deck = [\<lparr>card_id = ''A-Clubs'', rank = ''A'', suit = ''Clubs''\<rparr>,
                 \<lparr>card_id = ''two'', rank = ''Two'', suit = ''Clubs''\<rparr>,
                 \<lparr>card_id = ''3-Clubs'', rank = ''3'', suit = ''Clubs''\<rparr>],
         discardPile = [\<lparr>card_id = ''K-Spades'', rank = ''K'', suit = ''Spades''\<rparr>]\<rparr>)"
  using updateCard_spec [of "''K-Spades''" "Some ''King''" None None table]
    updateCard_spec [of "''2-Clubs''" None None "Some ''K-Spades''" table]
    updateCard_spec [of "''2-Clubs''" "Some ''Two''" None "Some ''two''" table]
  by (auto simp: truthy_def str_def ids_def table_def Let_def less_Suc_eq numeral_3_eq_3)

subsection \<open>A conflicting rename\<close>

lemma store_deck_eq: "(s\<lparr>deck := d\<rparr> = s) = (d = deck s)"
  by (cases s) simp

text \<open>
  C10. For every request that reaches the check of the new id, that is, on a card of
  the deck, and whose new id is in the deck or in the discard pile: the answer is
  409, and the rank and the suit that were given have been written to the stored
  card before that check and stay written. The store left by the failed request
  holds the values given, so it is not the store before whenever one of them is
  not the value the card had: a failed update is not atomic.
\<close>

theorem updateCard_conflict_writes:
  "i \<in> card_id ` set (deck s) \<Longrightarrow> truthy newId \<Longrightarrow> str newId \<in> set (ids s) \<Longrightarrow>
     (\<exists>n < length (deck s).
        card_id (deck s ! n) = i \<and> (\<forall>m < n. card_id (deck s ! m) \<noteq> i) \<and>
        fst (updateCard i r su newId s) = (409, Error ''newId already exists'') \<and>
        snd (updateCard i r su newId s) =
          s\<lparr>deck := (deck s)[n := (deck s ! n)
                 \<lparr>rank := (if truthy r then str r else rank (deck s ! n)),
                  suit := (if truthy su then str su else suit (deck s ! n))\<rparr>]\<rparr> \<and>
        ((snd (updateCard i r su newId s) \<noteq> s) =
           ((truthy r \<and> str r \<noteq> rank (deck s ! n)) \<or> (truthy su \<and> str su \<noteq> suit (deck s ! n)))))"
proof -
  assume f: "i \<in> card_id ` set (deck s)" and t: "truthy newId" and c: "str newId \<in> set (ids s)"
  let ?n = "nat (findCardIndexById i s)"
  let ?c = "deck s ! ?n"
  let ?c1 = "?c\<lparr>rank := (if truthy r then str r else rank ?c),
                suit := (if truthy su then str su else suit ?c)\<rparr>"
  have u: "updateCard i r su newId s =
      ((409, Error ''newId already exists''), s\<lparr>deck := (deck s)[?n := ?c1]\<rparr>)"
    using updateCard_found [OF f, of r su newId] t c by (simp add: Let_def)
  note fi = found_index [OF f]
  have "(s\<lparr>deck := (deck s)[?n := ?c1]\<rparr> = s) = (?c1 = ?c)"
    using fi(1) by (auto simp: store_deck_eq list_update_same_conv)
  also have "\<dots> = (\<not> ((truthy r \<and> str r \<noteq> rank ?c) \<or> (truthy su \<and> str su \<noteq> suit ?c)))"
    by (cases ?c) auto
  finally have ch: "(s\<lparr>deck := (deck s)[?n := ?c1]\<rparr> \<noteq> s) =
      ((truthy r \<and> str r \<noteq> rank ?c) \<or> (truthy su \<and> str su \<noteq> suit ?c))" by simp
  have "?n < length (deck s) \<and>
        card_id (deck s ! ?n) = i \<and> (\<forall>m < ?n. card_id (deck s ! m) \<noteq> i) \<and>
        fst (updateCard i r su newId s) = (409, Error ''newId already exists'') \<and>
        snd (updateCard i r su newId s) = s\<lparr>deck := (deck s)[?n := ?c1]\<rparr> \<and>
        ((snd (updateCard i r su newId s) \<noteq> s) =
           ((truthy r \<and> str r \<noteq> rank ?c) \<or> (truthy su \<and> str su \<noteq> suit ?c)))"
    using fi ch unfolding u by simp
  then show ?thesis by blast
qed

theorem updateCard_conflict_writes_witness:
  "''2-Clubs'' \<in> card_id ` set (deck table) \<and> truthy (Some ''K-Spades'')
   \<and> str (Some ''K-Spades'') \<in> set (ids table)
   \<and> updateCard ''2-Clubs'' (Some ''Two'') None (Some ''K-Spades'') table =
       ((409, Error ''newId already exists''),
        \<lparr>deck = [\<lparr>card_id = ''A-Clubs'', rank = ''A'', suit = ''Clubs''\<rparr>,
                 \<lparr>card_id = ''2-Clubs'', rank = ''Two'', suit = ''Clubs''\<rparr>,
                 \<lparr>card_id = ''3-Clubs'', rank = ''3'', suit = ''Clubs''\<rparr>],
         discardPile = [\<lparr>card_id = ''K-Spades'', rank = ''K'', suit = ''Spades''\<rparr>]\<rparr>)
   \<and> snd (updateCard ''2-Clubs'' (Some ''Two'') None (Some ''K-Spades'') table) \<noteq> table"
proof -
  have h: "''2-Clubs'' \<in> card_id ` set (deck table)" "truthy (Some ''K-Spades'')"
    "str (Some ''K-Spades'') \<in> set (ids table)"
    by (simp_all add: table_def truthy_def str_def ids_def)
  from updateCard_conflict_writes [OF h, of "Some ''Two''" None] h
  show ?thesis
    by (cases "updateCard ''2-Clubs'' (Some ''Two'') None (Some ''K-Spades'') table")
       (auto simp: truthy_def str_def table_def less_Suc_eq numeral_3_eq_3)
qed

subsection \<open>Uniqueness of ids\<close>

lemma distinct_addCard: "distinct (ids s) \<Longrightarrow> distinct (ids (snd (addCard r su i s)))"
  by (auto simp: addCard_def Let_def has_id_iff) (auto simp: ids_def)

lemma distinct_updateCard:
  assumes d: "distinct (ids s)"
  shows "distinct (ids (snd (updateCard i r su newId s)))"
proof (cases "i \<in> card_id ` set (deck s)")
  case False
  then have "findCardIndexById i s = - 1" by (simp add: not_found_iff)
  then show ?thesis using d by (simp add: updateCard_def)
next
  case True
  let ?n = "nat (findCardIndexById i s)"
  have len: "?n < length (deck s)" by (rule found_index(1) [OF True])
  have ren: "distinct (ids (s\<lparr>deck := (deck s)[?n := c]\<rparr>))" if "card_id c \<notin> set (ids s)" for c
    using d that by (simp add: ids_set_deck [OF len] distinct_list_update)
  show ?thesis
    unfolding updateCard_found [OF True] Let_def
    using d by (auto simp: ids_same intro: ren)
qed

lemma mset_ids_removeCard: "mset (ids (snd (removeCard i s))) = mset (ids s)"
proof (cases "i \<in> card_id ` set (deck s)")
  case False
  then have "findCardIndexById i s = - 1" by (simp add: not_found_iff)
  then show ?thesis by (simp add: removeCard_def)
next
  case True
  let ?n = "nat (findCardIndexById i s)"
  have len: "?n < length (deck s)" by (rule found_index(1) [OF True])
  from True have ne: "findCardIndexById i s \<noteq> - 1" by (simp add: not_found_iff)
  have "mset (deck s) = mset (take ?n (deck s) @ deck s ! ?n # drop (Suc ?n) (deck s))"
    using id_take_nth_drop [OF len] by simp
  then have "mset (map card_id (deck s)) =
      mset (map card_id (take ?n (deck s) @ deck s ! ?n # drop (Suc ?n) (deck s)))"
    by (metis mset_map)
  then show ?thesis using ne by (simp add: removeCard_def Let_def ids_def)
qed

lemma mset_ids_draw: "mset (ids (snd (draw m s))) = mset (ids s)"
proof (cases "deck s = []")
  case True
  then show ?thesis by (simp add: draw_def)
next
  case False
  from draw_loop_some [of 0 "Math_max 1 m" "[]" s] obtain k where
    k: "draw_loop 0 (Math_max 1 m) [] s =
          ([] @ take k (deck s),
           s\<lparr>deck := drop k (deck s), discardPile := discardPile s @ take k (deck s)\<rparr>)"
    by blast
  have "mset (map card_id (deck s)) = mset (map card_id (take k (deck s) @ drop k (deck s)))"
    by simp
  then have "mset (map card_id (deck s)) =
      mset (map card_id (take k (deck s))) + mset (map card_id (drop k (deck s)))"
    by (simp del: append_take_drop_id)
  then show ?thesis using False
    by (simp add: draw_def Let_def k ids_def del: draw_loop.simps)
qed

lemma mset_ids_shuffle: "random_ok rnd \<Longrightarrow> mset (ids (snd (shuffle rnd s))) = mset (ids s)"
proof -
  assume r: "random_ok rnd"
  have "mset (shuffleArray rnd (deck s)) = mset (deck s)"
  proof (cases "deck s")
    case Nil
    then show ?thesis by (simp add: shuffleArray_def)
  next
    case (Cons c cs)
    then have "length (deck s) - 1 < length (deck s)" by simp
    from mset_shuffle_loop [OF r this] show ?thesis by (simp add: shuffleArray_def)
  qed
  then have "mset (map card_id (shuffleArray rnd (deck s))) = mset (map card_id (deck s))"
    by (metis mset_map)
  then show ?thesis by (simp add: shuffle_def Let_def ids_def)
qed

text \<open>
  C1. Every operation (\<open>addCard\<close>, \<open>updateCard\<close>, \<open>removeCard\<close>, \<open>shuffle\<close>, \<open>draw\<close>,
  \<open>peek\<close>, \<open>reset\<close>) keeps the ids of the deck and the discard pile together pairwise
  distinct: from a store where they are, the store it leaves has them so too.
\<close>

theorem handle_keeps_ids_distinct:
  "distinct (ids s) \<Longrightarrow> random_ok rnd \<Longrightarrow> distinct (ids (snd (handle rnd req s)))"
proof -
  assume d: "distinct (ids s)" and r: "random_ok rnd"
  show ?thesis
  proof (cases req)
    case (AddCard x1 x2 x3)
    then show ?thesis using d by (simp add: distinct_addCard)
  next
    case (UpdateCard x1 x2 x3 x4)
    then show ?thesis using d by (simp add: distinct_updateCard)
  next
    case (RemoveCard x)
    then show ?thesis using d mset_eq_imp_distinct_iff [OF mset_ids_removeCard [of x s]] by simp
  next
    case Shuffle
    then show ?thesis using d mset_eq_imp_distinct_iff [OF mset_ids_shuffle [OF r, of s]] by simp
  next
    case (Draw m)
    then show ?thesis using d mset_eq_imp_distinct_iff [OF mset_ids_draw [of m s]] by simp
  next
    case (Peek m)
    then show ?thesis using d by (simp add: peek_def)
  next
    case Reset
    then show ?thesis using makeDeck_distinct by (simp add: reset_def ids_def)
  qed
qed

theorem handle_keeps_ids_distinct_witness:
  "distinct (ids table) \<and> random_ok coin
   \<and> distinct (ids (snd (handle coin Shuffle table)))
   \<and> distinct (ids (snd (handle coin (UpdateCard ''2-Clubs'' None None (Some ''Joker'')) table)))"
proof -
  have d: "distinct (ids table)" by (simp add: ids_def table_def)
  have r: "random_ok coin" by (simp add: random_ok_def coin_def)
  from handle_keeps_ids_distinct [OF d r, of Shuffle]
    handle_keeps_ids_distinct [OF d r, of "UpdateCard ''2-Clubs'' None None (Some ''Joker'')"] d r
  show ?thesis by simp
qed

section \<open>Properties of the library CLI\<close>

subsection \<open>Adding a book\<close>

lemma question_Cons: "stdin c = l # ls \<Longrightarrow> question c = Some (l, c\<lparr>stdin := ls\<rparr>)"
  by (simp add: question_def)

lemma cmdAdd_abort:
  "stdin c = l # ls \<Longrightarrow> trim l = [] \<Longrightarrow>
     cmdAdd other c = Some (c\<lparr>stdin := ls, stdout := stdout c @ [Log ''Title is required. Aborting add.'']\<rparr>)"
  by (simp add: cmdAdd_def question_Cons console_log_def)

lemma cmdAdd_ok:
  "stdin c = t # a # y # i # ls \<Longrightarrow> trim t \<noteq> [] \<Longrightarrow>
     cmdAdd other c =
       (let b = \<lparr>book_id = nextId c, title = trim t,
                 author = (if trim a = [] then ''Unknown'' else trim a),
                 year = (if trim y \<noteq> [] \<and> truthy_num (Number other (trim y))
                         then Some (Number other (trim y)) else None),
                 isbn = (if trim i = [] then None else Some (trim i))\<rparr>
        in Some (c\<lparr>stdin := ls, nextId := increment (nextId c), books := books c @ [b],
                   stdout := stdout c @ [LogBook ''Added:'' b]\<rparr>))"
  by (simp add: cmdAdd_def question_def console_log_def Let_def)


text \<open>
  C7. When the title given to \<open>cmdAdd\<close> is empty after trimming, the command ends
  with the message that the title is required, having read that one line: the list
  of books and the counter are as before, and an add that follows, with a title,
  gives its book the id the counter held before both.
\<close>

theorem cmdAdd_empty_title:
  "stdin c = l # ls \<Longrightarrow> trim l = [] \<Longrightarrow>
     cmdAdd other c =
       Some (c\<lparr>stdin := ls, stdout := stdout c @ [Log ''Title is required. Aborting add.'']\<rparr>)
     \<and> (\<forall>t a y i ls'. ls = t # a # y # i # ls' \<and> trim t \<noteq> [] \<longrightarrow>
           (\<exists>c2 b. cmdAdd other c \<bind> cmdAdd other = Some c2
              \<and> books c2 = books c @ [b] \<and> book_id b = nextId c
              \<and> nextId c2 = increment (nextId c)))"
proof -
  assume s: "stdin c = l # ls" and e: "trim l = []"
  let ?c1 = "c\<lparr>stdin := ls, stdout := stdout c @ [Log ''Title is required. Aborting add.'']\<rparr>"
  have a: "cmdAdd other c = Some ?c1" by (rule cmdAdd_abort [OF s e])
  have "\<exists>c2 b. cmdAdd other c \<bind> cmdAdd other = Some c2
              \<and> books c2 = books c @ [b] \<and> book_id b = nextId c
              \<and> nextId c2 = increment (nextId c)"
    if "ls = t # a # y # i # ls'" and "trim t \<noteq> []" for t a y i ls'
  proof -
    from that(1) have "stdin ?c1 = t # a # y # i # ls'" by simp
    from cmdAdd_ok [OF this that(2), of other] show ?thesis unfolding a by (simp add: Let_def)
  qed
  with a show ?thesis by blast
qed

theorem cmdAdd_empty_title_witness:
  "trim ''   '' = [] \<and>
   cmdAdd nan (initial [''   '', ''Dune'', [], ''1965'', []]) =
     Some \<lparr>books = sample, nextId = 3, stdin = [''Dune'', [], ''1965'', []],
           stdout = [Log ''Title is required. Aborting add.'']\<rparr>
   \<and> map_option (\<lambda>c. (map book_id (books c), nextId c))
        (cmdAdd nan (initial [''   '', ''Dune'', [], ''1965'', []]) \<bind> cmdAdd nan)
       = Some ([1, 2, 3], 4)"
proof -
  have t: "trim ''   '' = []" by (simp add: trim_def isSpace_def)
  have s: "stdin (initial [''   '', ''Dune'', [], ''1965'', []]) = ''   '' # [''Dune'', [], ''1965'', []]"
    by (simp add: initial_def)
  have d: "trim ''Dune'' \<noteq> []" by (simp add: trim_def isSpace_def)
  from cmdAdd_empty_title [OF s t, of nan] d t
  show ?thesis by (auto simp: initial_def seed_def sample_def increment_def)
qed

text \<open>
  C8, as amended. When the title given to \<open>cmdAdd\<close> is not empty after trimming, the
  command appends one book. Its id is the counter, which is incremented, except that
  a counter that has reached \<open>2^53\<close> stays there. Its title is the trimmed title; its
  author is the trimmed author, or \<^verbatim>\<open>Unknown\<close> when that is empty. Its year is
  present, the integer the trimmed input is parsed to, when that input is not empty
  and is parsed to an integer other than 0 (as decimal digits denoting a positive
  integer below \<open>2^53\<close> are, to that integer), and absent when the input is empty. Its
  isbn is present, the trimmed input, exactly when that is not empty.
\<close>

theorem cmdAdd_creates:
  "stdin c = t # a # y # i # ls \<Longrightarrow> trim t \<noteq> [] \<Longrightarrow>
     (\<exists>b. cmdAdd other c =
             Some (c\<lparr>stdin := ls, nextId := increment (nextId c), books := books c @ [b],
                     stdout := stdout c @ [LogBook ''Added:'' b]\<rparr>)
        \<and> book_id b = nextId c
        \<and> (nextId c < 2 ^ 53 \<longrightarrow> increment (nextId c) = nextId c + 1)
        \<and> (nextId c = 2 ^ 53 \<longrightarrow> increment (nextId c) = nextId c)
        \<and> title b = trim t
        \<and> author b = (if trim a = [] then ''Unknown'' else trim a)
        \<and> (\<forall>k. trim y \<noteq> [] \<and> Number other (trim y) = Fin (of_int k) \<and> k \<noteq> 0 \<longrightarrow>
              year b = Some (Fin (of_int k)))
        \<and> (list_all isDigit (trim y) \<and> 0 < decimal (trim y) \<and> decimal (trim y) < 2 ^ 53 \<longrightarrow>
              year b = Some (Fin (of_int (decimal (trim y)))))
        \<and> (trim y = [] \<longrightarrow> year b = None)
        \<and> isbn b = (if trim i = [] then None else Some (trim i)))"
proof -
  assume s: "stdin c = t # a # y # i # ls" and n: "trim t \<noteq> []"
  have d: "Number other (trim y) = Fin (of_int (decimal (trim y)))
      \<and> truthy_num (Fin (of_int (decimal (trim y)))) \<and> trim y \<noteq> []"
    if "list_all isDigit (trim y)" and "0 < decimal (trim y)" and "decimal (trim y) < 2 ^ 53"
  proof -
    from that(2) have "trim y \<noteq> []" by (auto simp: decimal_def)
    with that show ?thesis by (simp add: Number_def truthy_num_def)
  qed
  have k: "truthy_num (Fin (of_int k))" if "k \<noteq> 0" for k :: int
    using that by (simp add: truthy_num_def)
  show ?thesis
    unfolding cmdAdd_ok [OF s n, of other] Let_def
    by (rule exI, rule conjI, rule refl) (use d k in \<open>auto simp: increment_def\<close>)
qed

theorem cmdAdd_creates_witness:
  "trim '' Dune'' \<noteq> [] \<and>
   cmdAdd nan (initial ['' Dune'', ''  '', ''1965'', ''0-441''])
     = Some \<lparr>books = sample @ [\<lparr>book_id = 3, title = ''Dune'', author = ''Unknown'',
                                 year = Some (Fin 1965), isbn = Some ''0-441''\<rparr>],
             nextId = 4, stdin = [],
             stdout = [LogBook ''Added:'' \<lparr>book_id = 3, title = ''Dune'', author = ''Unknown'',
                                 year = Some (Fin 1965), isbn = Some ''0-441''\<rparr>]\<rparr>"
proof -
  let ?c = "initial ['' Dune'', ''  '', ''1965'', ''0-441'']"
  have s: "stdin ?c = '' Dune'' # ''  '' # ''1965'' # ''0-441'' # []"
    by (simp add: initial_def)
  have n: "trim '' Dune'' \<noteq> []" by (simp add: trim_def isSpace_def)
  have t: "trim '' Dune'' = ''Dune''" "trim ''  '' = []" "trim ''1965'' = ''1965''"
    "trim ''0-441'' = ''0-441''"
    by (simp_all add: trim_def isSpace_def)
  have y: "list_all isDigit ''1965''" "decimal ''1965'' = 1965"
    by (simp_all add: isDigit_def decimal_def)
  from cmdAdd_creates [OF s n, of nan] obtain b where
    r: "cmdAdd nan ?c =
         Some (?c\<lparr>stdin := [], nextId := increment (nextId ?c), books := books ?c @ [b],
                   stdout := stdout ?c @ [LogBook ''Added:'' b]\<rparr>)"
    and f: "book_id b = nextId ?c"
      "nextId ?c < 2 ^ 53 \<longrightarrow> increment (nextId ?c) = nextId ?c + 1"
      "title b = trim '' Dune''" "author b = (if trim ''  '' = [] then ''Unknown'' else trim ''  '')"
      "list_all isDigit (trim ''1965'') \<and> 0 < decimal (trim ''1965'') \<and> decimal (trim ''1965'') < 2 ^ 53 \<longrightarrow>
             year b = Some (Fin (of_int (decimal (trim ''1965''))))"
      "isbn b = (if trim ''0-441'' = [] then None else Some (trim ''0-441''))"
    by blast
  have c: "nextId ?c = 3" by (simp add: initial_def seed_def sample_def increment_def)
  from f(2) c have i: "increment (nextId ?c) = 4" by simp
  from f have "b = \<lparr>book_id = 3, title = ''Dune'', author = ''Unknown'',
                                 year = Some (Fin 1965), isbn = Some ''0-441''\<rparr>"
    unfolding t y c by (cases b) (simp add: isDigit_def)
  with r n i show ?thesis by (simp add: initial_def sample_def)
qed

text \<open>
  The year input \<^verbatim>\<open>0\<close> is not empty, and the book added has no year. And with the
  counter at \<open>2^53\<close> a book is added and the counter is left where it was.
\<close>

theorem cmdAdd_year_zero_counterexample:
  "trim ''0'' \<noteq> [] \<and>
   cmdAdd nan \<lparr>books = [], nextId = 1, stdin = [''Dune'', ''Frank Herbert'', ''0'', []], stdout = []\<rparr>
     = Some \<lparr>books = [\<lparr>book_id = 1, title = ''Dune'', author = ''Frank Herbert'',
                        year = None, isbn = None\<rparr>],
             nextId = 2, stdin = [],
             stdout = [LogBook ''Added:'' \<lparr>book_id = 1, title = ''Dune'', author = ''Frank Herbert'',
                        year = None, isbn = None\<rparr>]\<rparr>
   \<and> cmdAdd nan \<lparr>books = [], nextId = 9007199254740992,
                  stdin = [''Dune'', ''Frank Herbert'', ''1965'', []], stdout = []\<rparr>
     = Some \<lparr>books = [\<lparr>book_id = 9007199254740992, title = ''Dune'', author = ''Frank Herbert'',
                        year = Some (Fin 1965), isbn = None\<rparr>],
             nextId = 9007199254740992, stdin = [],
             stdout = [LogBook ''Added:'' \<lparr>book_id = 9007199254740992, title = ''Dune'',
                        author = ''Frank Herbert'', year = Some (Fin 1965), isbn = None\<rparr>]\<rparr>"
  by (simp add: cmdAdd_def question_def console_log_def Let_def trim_def isSpace_def
        Number_def isDigit_def decimal_def truthy_num_def increment_def)

subsection \<open>Ids are not used twice\<close>


















end
